theory Spec2Isabelle
  imports Complex_Main
begin

section \<open>Swarm session store and session API\<close>

text \<open>
  The embedding follows \<^verbatim>\<open>server/database/db.js\<close> (the \<^verbatim>\<open>swarmDb\<close> and
  \<^verbatim>\<open>credentialsDb\<close> objects), \<^verbatim>\<open>server/database/swarm-schema.sql\<close> and the route
  handlers of \<^verbatim>\<open>server/routes/claude-flow.js\<close>.

  A table is the list of its rows in insertion order. An \<^verbatim>\<open>UPDATE ... WHERE\<close>
  rewrites every row the predicate selects and reports their number as
  \<^verbatim>\<open>result.changes\<close>. The clock is an explicit argument: \<open>now\<close> is the reading
  (milliseconds since the epoch) that \<^verbatim>\<open>new Date()\<close>, \<^verbatim>\<open>Date.now()\<close> or
  \<^verbatim>\<open>CURRENT_TIMESTAMP\<close> takes at the call, and a stored timestamp is that reading
  (its rendering as text is injective and is left out).
\<close>

type_synonym timestamp = nat

text \<open>
  A row of \<^verbatim>\<open>swarm_sessions\<close>. The metadata column holds the JSON text of
  \<^verbatim>\<open>{ agentTypes }\<close>; the model keeps the list of agent types itself, so that
  \<^verbatim>\<open>JSON.stringify\<close> on writing and \<^verbatim>\<open>JSON.parse\<close> on reading cancel.
\<close>

record swarm_session =
  s_id :: nat
  s_session_id :: string
  s_user_id :: int
  s_project_name :: string
  s_project_path :: string
  s_swarm_type :: string
  s_queen_agent :: "string option"
  s_task_description :: string
  s_status :: string
  s_namespace :: "string option"
  s_created_at :: timestamp
  s_completed_at :: "timestamp option"
  s_error_message :: "string option"
  s_metadata :: "string list"

text \<open>\<^verbatim>\<open>swarmDb.getSwarmSession\<close>: the row with this session id, or nothing.\<close>

definition getSwarmSession :: "swarm_session list \<Rightarrow> string \<Rightarrow> swarm_session option" where
  "getSwarmSession tbl sessionId = find (\<lambda>row. s_session_id row = sessionId) tbl"

text \<open>
  \<^verbatim>\<open>swarmDb.updateSwarmStatus(sessionId, status, errorMessage = null)\<close>: returns
  \<^verbatim>\<open>result.changes > 0\<close> and the table after the update.
\<close>

definition updateSwarmStatus ::
  "timestamp \<Rightarrow> swarm_session list \<Rightarrow> string \<Rightarrow> string \<Rightarrow> string option
     \<Rightarrow> bool \<times> swarm_session list" where
  "updateSwarmStatus now tbl sessionId status errorMessage =
     (let completedAt =
            (if status = ''completed'' \<or> status = ''failed'' \<or> status = ''aborted''
             then Some now else None);
          changes = length (filter (\<lambda>row. s_session_id row = sessionId) tbl)
      in (0 < changes,
          map (\<lambda>row. if s_session_id row = sessionId
                      then row\<lparr>s_status := status,
                               s_error_message := errorMessage,
                               s_completed_at := completedAt\<rparr>
                      else row) tbl))"

text \<open>The terminal statuses of the session state machine.\<close>

definition terminal :: "string \<Rightarrow> bool" where
  "terminal status = (status = ''completed'' \<or> status = ''failed'' \<or> status = ''aborted'')"

text \<open>The JSON bodies the handlers answer with, by shape.\<close>

datatype body =
    ErrorBody string "string option"
  | CreateBody string string string string string
  | AbortBody string string
  | ExecBody bool string int string string

text \<open>
  \<^verbatim>\<open>POST /swarm/abort/:sessionId\<close>: the HTTP status, the body and the table
  afterwards. The session id is a path parameter, hence a string.
\<close>

definition swarm_abort ::
  "timestamp \<Rightarrow> swarm_session list \<Rightarrow> string \<Rightarrow> (nat \<times> body) \<times> swarm_session list" where
  "swarm_abort now tbl sessionId =
     (case getSwarmSession tbl sessionId of
        None \<Rightarrow> ((404, ErrorBody ''Swarm session not found'' None), tbl)
      | Some session \<Rightarrow>
          ((200, AbortBody sessionId ''aborted''),
           snd (updateSwarmStatus now tbl sessionId ''aborted'' None)))"

text \<open>
  \<^verbatim>\<open>Date.now()\<close> inside a template literal: the decimal digits of the reading.
\<close>

fun string_of_nat :: "nat \<Rightarrow> string" where
  "string_of_nat n =
     (if n < 10 then [char_of (48 + n)]
      else string_of_nat (n div 10) @ [char_of (48 + n mod 10)])"

text \<open>
  \<^verbatim>\<open>swarmDb.createSwarmSession\<close>. The statement can throw: \<^verbatim>\<open>session_id\<close> is
  \<^verbatim>\<open>UNIQUE\<close>. The owner is taken to exist in \<^verbatim>\<open>users\<close>, a table outside this
  slice. \<^verbatim>\<open>AUTOINCREMENT\<close> hands out a row id above every one in use (no operation
  here deletes a session). The columns the statement does not name take their defaults:
  status \<^verbatim>\<open>'active'\<close>, \<^verbatim>\<open>created_at\<close> the current time, the others \<^verbatim>\<open>NULL\<close>.
  The result is the thrown message, or \<^verbatim>\<open>{ id, sessionId, namespace }\<close> and the
  table afterwards.
\<close>

definition createSwarmSession ::
  "timestamp \<Rightarrow> swarm_session list \<Rightarrow> int \<Rightarrow> string \<Rightarrow> string \<Rightarrow> string \<Rightarrow> string
     \<Rightarrow> string \<Rightarrow> string list
     \<Rightarrow> string + ((nat \<times> string \<times> string) \<times> swarm_session list)" where
  "createSwarmSession now tbl userId sessionId projectName projectPath swarmType
       taskDescription metadata =
     (let namespace = projectName @ ''-'' @ string_of_nat now in
      if list_ex (\<lambda>row. s_session_id row = sessionId) tbl
      then Inl ''UNIQUE constraint failed: swarm_sessions.session_id''
      else
        (let rowid = Suc (fold max (map s_id tbl) 0) in
         Inr ((rowid, sessionId, namespace),
              tbl @ [\<lparr>s_id = rowid, s_session_id = sessionId, s_user_id = userId,
                      s_project_name = projectName, s_project_path = projectPath,
                      s_swarm_type = swarmType, s_queen_agent = None,
                      s_task_description = taskDescription, s_status = ''active'',
                      s_namespace = Some namespace, s_created_at = now,
                      s_completed_at = None, s_error_message = None,
                      s_metadata = metadata\<rparr>])))"

text \<open>
  Request bodies. A field of the JSON body is absent (\<open>None\<close>) or a string; JavaScript's
  \<^verbatim>\<open>!x\<close> is true of an absent field and of the empty string.
\<close>

definition falsy :: "string option \<Rightarrow> bool" where
  "falsy v = (case v of None \<Rightarrow> True | Some s \<Rightarrow> s = [])"

text \<open>The string a field holds, once the check above has passed.\<close>

definition field_text :: "string option \<Rightarrow> string" where
  "field_text v = (case v of None \<Rightarrow> [] | Some s \<Rightarrow> s)"

text \<open>\<^verbatim>\<open>req.user?.id || 1\<close>: a missing user and the id 0 both give 1.\<close>

definition request_user :: "int option \<Rightarrow> int" where
  "request_user u = (case u of None \<Rightarrow> 1 | Some i \<Rightarrow> if i = 0 then 1 else i)"

record create_request =
  c_projectName :: "string option"
  c_projectPath :: "string option"
  c_taskDescription :: "string option"
  c_swarmType :: "string option"
  c_agentTypes :: "string list option"
  c_user :: "int option"

text \<open>
  \<^verbatim>\<open>POST /swarm/create\<close>. \<open>uuid\<close> is what \<^verbatim>\<open>crypto.randomUUID()\<close> returns at the
  call. An exception of the store is caught and answered with 500.
\<close>

definition swarm_create ::
  "timestamp \<Rightarrow> string \<Rightarrow> swarm_session list \<Rightarrow> create_request
     \<Rightarrow> (nat \<times> body) \<times> swarm_session list" where
  "swarm_create now uuid tbl req =
     (let swarmType = (case c_swarmType req of None \<Rightarrow> ''quick'' | Some t \<Rightarrow> t);
          agentTypes = (case c_agentTypes req of None \<Rightarrow> [] | Some ts \<Rightarrow> ts);
          userId = request_user (c_user req)
      in
      if falsy (c_projectName req) \<or> falsy (c_projectPath req)
           \<or> falsy (c_taskDescription req)
      then ((400, ErrorBody ''Missing required fields''
                    (Some ''projectName, projectPath, and taskDescription are required'')),
            tbl)
      else
        (let sessionId = ''swarm-'' @ uuid;
             projectName = field_text (c_projectName req)
         in case createSwarmSession now tbl userId sessionId projectName
                   (field_text (c_projectPath req)) swarmType (field_text (c_taskDescription req))
                   agentTypes of
              Inl message \<Rightarrow> ((500, ErrorBody ''Failed to create swarm'' (Some message)), tbl)
            | Inr ((rowid, sid, namespace), tbl') \<Rightarrow>
                ((200, CreateBody sid namespace swarmType projectName ''active''), tbl')))"

section \<open>Worker store\<close>

text \<open>A row of \<^verbatim>\<open>swarm_workers\<close>; \<^verbatim>\<open>worker_id\<close> is not declared unique.\<close>

record swarm_worker =
  w_id :: nat
  w_swarm_session_id :: nat
  w_worker_id :: string
  w_agent_type :: string
  w_agent_name :: string
  w_task :: string
  w_status :: string
  w_started_at :: "timestamp option"
  w_completed_at :: "timestamp option"
  w_input_tokens :: int
  w_output_tokens :: int
  w_total_tokens :: int
  w_result :: "string option"
  w_error_message :: "string option"
  w_metadata :: string

text \<open>
  \<^verbatim>\<open>swarmDb.updateWorkerStatus(workerId, status, result = null, errorMessage = null)\<close>.
  \<^verbatim>\<open>COALESCE(started_at, ?)\<close> keeps a \<^verbatim>\<open>started_at\<close> that is not \<^verbatim>\<open>NULL\<close>.
\<close>

definition updateWorkerStatus ::
  "timestamp \<Rightarrow> swarm_worker list \<Rightarrow> string \<Rightarrow> string \<Rightarrow> string option \<Rightarrow> string option
     \<Rightarrow> bool \<times> swarm_worker list" where
  "updateWorkerStatus now tbl workerId status result errorMessage =
     (let startedAt = (if status = ''active'' then Some now else None);
          completedAt =
            (if status = ''completed'' \<or> status = ''failed'' then Some now else None);
          changes = length (filter (\<lambda>row. w_worker_id row = workerId) tbl)
      in (0 < changes,
          map (\<lambda>row. if w_worker_id row = workerId
                      then row\<lparr>w_status := status,
                               w_result := result,
                               w_error_message := errorMessage,
                               w_started_at :=
                                 (case w_started_at row of
                                    Some t \<Rightarrow> Some t
                                  | None \<Rightarrow> startedAt),
                               w_completed_at := completedAt\<rparr>
                      else row) tbl))"

text \<open>
  \<^verbatim>\<open>swarmDb.updateWorkerTokens\<close>. Token counts are integers held in JavaScript
  numbers, which are doubles. \<^verbatim>\<open>inputTokens + outputTokens\<close> is the exact sum
  rounded to a double: the rounding is the argument \<open>fl\<close>. A double holds every integer
  of magnitude up to \<open>2^53\<close> exactly, so rounding changes nothing there; beyond that it
  does (the sum of \<open>2^53\<close> and 1 is stored as \<open>2^53\<close>). The two counts themselves are
  stored as they were passed.
\<close>

definition updateWorkerTokens ::
  "(int \<Rightarrow> int) \<Rightarrow> swarm_worker list \<Rightarrow> string \<Rightarrow> int \<Rightarrow> int
     \<Rightarrow> bool \<times> swarm_worker list" where
  "updateWorkerTokens fl tbl workerId inputTokens outputTokens =
     (let totalTokens = fl (inputTokens + outputTokens);
          changes = length (filter (\<lambda>row. w_worker_id row = workerId) tbl)
      in (0 < changes,
          map (\<lambda>row. if w_worker_id row = workerId
                      then row\<lparr>w_input_tokens := inputTokens,
                               w_output_tokens := outputTokens,
                               w_total_tokens := totalTokens\<rparr>
                      else row) tbl))"

section \<open>Agent metrics\<close>

text \<open>
  A row of \<^verbatim>\<open>agent_metrics\<close>. The usage count is a natural number: the column
  defaults to 0 and the only writer inserts 1 and then adds 1. The two averages are
  \<^verbatim>\<open>REAL\<close> columns.
\<close>

record agent_metric =
  m_id :: nat
  m_user_id :: int
  m_agent_type :: string
  m_usage_count :: nat
  m_total_input_tokens :: int
  m_total_output_tokens :: int
  m_total_tokens :: int
  m_avg_completion_time_ms :: real
  m_success_rate :: real
  m_last_used :: "timestamp option"
  m_updated_at :: timestamp

text \<open>
  \<^verbatim>\<open>swarmDb.updateAgentMetrics\<close>. JavaScript computes \<^verbatim>\<open>*\<close>, \<^verbatim>\<open>+\<close> and \<^verbatim>\<open>/\<close>
  of the two averages in double precision: each operation yields the exact result,
  rounded. The rounding is the argument \<open>fl\<close>; exact arithmetic is \<open>fl = (\<lambda>x. x)\<close>.
  The counts and token sums are integers and are added exactly. \<^verbatim>\<open>SELECT ... .get\<close>
  returns the first matching row, and \<^verbatim>\<open>UNIQUE(user_id, agent_type)\<close> allows one.
\<close>

definition updateAgentMetrics ::
  "(real \<Rightarrow> real) \<Rightarrow> timestamp \<Rightarrow> agent_metric list \<Rightarrow> int \<Rightarrow> string \<Rightarrow> int \<Rightarrow> int \<Rightarrow> real
     \<Rightarrow> bool \<Rightarrow> bool \<times> agent_metric list" where
  "updateAgentMetrics fl now tbl userId agentType inputTokens outputTokens
       completionTimeMs success =
     (let totalTokens = inputTokens + outputTokens in
      case find (\<lambda>row. m_user_id row = userId \<and> m_agent_type row = agentType) tbl of
        Some existing \<Rightarrow>
          (let newUsageCount = m_usage_count existing + 1;
               newTotalInputTokens = m_total_input_tokens existing + inputTokens;
               newTotalOutputTokens = m_total_output_tokens existing + outputTokens;
               newTotalTokens = m_total_tokens existing + totalTokens;
               newAvgTime =
                 fl (fl (fl (m_avg_completion_time_ms existing
                               * real (m_usage_count existing))
                         + completionTimeMs)
                     / real newUsageCount);
               successCount =
                 fl (fl (m_success_rate existing * real (m_usage_count existing))
                     + (if success then 1 else 0));
               newSuccessRate = fl (successCount / real newUsageCount)
           in (True,
               map (\<lambda>row. if m_user_id row = userId \<and> m_agent_type row = agentType
                           then row\<lparr>m_usage_count := newUsageCount,
                                    m_total_input_tokens := newTotalInputTokens,
                                    m_total_output_tokens := newTotalOutputTokens,
                                    m_total_tokens := newTotalTokens,
                                    m_avg_completion_time_ms := newAvgTime,
                                    m_success_rate := newSuccessRate,
                                    m_last_used := Some now,
                                    m_updated_at := now\<rparr>
                           else row) tbl))
      | None \<Rightarrow>
          (True,
           tbl @ [\<lparr>m_id = Suc (fold max (map m_id tbl) 0), m_user_id = userId,
                   m_agent_type = agentType, m_usage_count = 1,
                   m_total_input_tokens = inputTokens,
                   m_total_output_tokens = outputTokens, m_total_tokens = totalTokens,
                   m_avg_completion_time_ms = completionTimeMs,
                   m_success_rate = (if success then 1 else 0),
                   m_last_used = Some now, m_updated_at = now\<rparr>]))"

text \<open>
  One call of \<^verbatim>\<open>updateAgentMetrics\<close>, by its arguments, and a sequence of calls on
  the table, each on the table the one before left.
\<close>

record metric_update =
  u_now :: timestamp
  u_userId :: int
  u_agentType :: string
  u_inputTokens :: int
  u_outputTokens :: int
  u_completionTimeMs :: real
  u_success :: bool

fun updates :: "(real \<Rightarrow> real) \<Rightarrow> agent_metric list \<Rightarrow> metric_update list \<Rightarrow> agent_metric list"
  where
  "updates fl tbl [] = tbl"
| "updates fl tbl (u # us) =
     updates fl
       (snd (updateAgentMetrics fl (u_now u) tbl (u_userId u) (u_agentType u)
               (u_inputTokens u) (u_outputTokens u) (u_completionTimeMs u) (u_success u)))
       us"

section \<open>Process runner\<close>

text \<open>
  A row of \<^verbatim>\<open>user_credentials\<close>, with the columns the statements of
  \<^verbatim>\<open>credentialsDb\<close> name.
\<close>

record user_credential =
  k_id :: nat
  k_user_id :: int
  k_credential_name :: string
  k_credential_type :: string
  k_credential_value :: string
  k_description :: "string option"
  k_created_at :: timestamp
  k_is_active :: bool

text \<open>
  \<^verbatim>\<open>ORDER BY created_at DESC LIMIT 1\<close>: a row with the greatest \<^verbatim>\<open>created_at\<close>
  (among equals, the one stored first).
\<close>

fun latest :: "user_credential list \<Rightarrow> user_credential option" where
  "latest [] = None"
| "latest (row # rows) =
     (case latest rows of
        None \<Rightarrow> Some row
      | Some other \<Rightarrow> if k_created_at row < k_created_at other then Some other else Some row)"

text \<open>
  \<^verbatim>\<open>credentialsDb.getActiveCredential\<close>: \<^verbatim>\<open>row?.credential_value || null\<close> is
  \<^verbatim>\<open>null\<close> when there is no row and when the value is the empty string.
\<close>

definition getActiveCredential :: "user_credential list \<Rightarrow> int \<Rightarrow> string \<Rightarrow> string option" where
  "getActiveCredential creds userId credentialType =
     (case latest (filter (\<lambda>row. k_user_id row = userId
                                \<and> k_credential_type row = credentialType
                                \<and> k_is_active row) creds) of
        None \<Rightarrow> None
      | Some row \<Rightarrow> if k_credential_value row = [] then None
                    else Some (k_credential_value row))"

text \<open>
  What a handler does to the outside, in order: response headers, frames of the event
  stream, the end of the response, a JSON answer with its HTTP status, and the spawn of
  a child process (command, arguments, working directory and the value of
  \<^verbatim>\<open>ANTHROPIC_API_KEY\<close> in its environment). Console output is left out.
\<close>

record sse_event =
  ev_type :: string
  ev_message :: string
  ev_sessionId :: string
  ev_duration :: "int option"
  ev_output :: "string option"
  ev_error :: "string option"

datatype effect =
    SetHeader string string
  | Write sse_event
  | EndResponse
  | Respond nat body
  | Spawn string "string list" string string

definition plain_event :: "string \<Rightarrow> string \<Rightarrow> string \<Rightarrow> sse_event" where
  "plain_event eventType message sessionId =
     \<lparr>ev_type = eventType, ev_message = message, ev_sessionId = sessionId,
      ev_duration = None, ev_output = None, ev_error = None\<rparr>"

text \<open>\<^verbatim>\<open>sendEvent\<close> writes a frame only when the request asked for streaming.\<close>

definition sendEvent :: "bool \<Rightarrow> sse_event \<Rightarrow> effect list" where
  "sendEvent streaming ev = (if streaming then [Write ev] else [])"

record exec_request =
  x_sessionId :: "string option"
  x_taskDescription :: "string option"
  x_swarmType :: "string option"
  x_streaming :: "bool option"
  x_user :: "int option"

text \<open>What the callbacks of a spawned process close over.\<close>

record running =
  r_sessionId :: string
  r_streaming :: bool
  r_startTime :: timestamp
  r_stdout :: string
  r_stderr :: string

definition no_credential_message :: string where
  "no_credential_message =
     ''Claude API key not configured. Please add your Claude API key in settings.''"

text \<open>
  \<^verbatim>\<open>POST /swarm/execute\<close> up to the registration of the callbacks: the effects in
  order, and the state of the callbacks when a process was spawned.
\<close>

definition swarm_execute ::
  "timestamp \<Rightarrow> user_credential list \<Rightarrow> swarm_session list \<Rightarrow> exec_request
     \<Rightarrow> effect list \<times> running option" where
  "swarm_execute now creds tbl req =
     (let swarmType = (case x_swarmType req of None \<Rightarrow> ''quick'' | Some t \<Rightarrow> t);
          streaming = (case x_streaming req of None \<Rightarrow> True | Some b \<Rightarrow> b)
      in
      if falsy (x_sessionId req) \<or> falsy (x_taskDescription req)
      then ([Respond 400 (ErrorBody ''Missing required fields''
                            (Some ''sessionId and taskDescription are required''))],
            None)
      else
        (let sessionId = field_text (x_sessionId req);
             taskDescription = field_text (x_taskDescription req);
             userId = request_user (x_user req)
         in case getSwarmSession tbl sessionId of
              None \<Rightarrow> ([Respond 404 (ErrorBody ''Swarm session not found'' None)], None)
            | Some swarmSession \<Rightarrow>
                (let headers =
                       (if streaming
                        then [SetHeader ''Content-Type'' ''text/event-stream'',
                              SetHeader ''Cache-Control'' ''no-cache'',
                              SetHeader ''Connection'' ''keep-alive'']
                        else []);
                     initial = sendEvent streaming
                                 (plain_event ''status'' ''Initializing swarm...'' sessionId)
                 in case getActiveCredential creds userId ''claude_api_key'' of
                      None \<Rightarrow>
                        (headers @ initial
                           @ sendEvent streaming
                               (plain_event ''error'' no_credential_message sessionId)
                           @ (if streaming then [EndResponse]
                              else [Respond 400 (ErrorBody no_credential_message None)]),
                         None)
                    | Some claudeApiKey \<Rightarrow>
                        (let args = [''claude-flow@alpha'', ''swarm'', taskDescription,
                                     ''--claude'']
                                    @ (if swarmType = ''hive-mind'' then [''--hive-mind'']
                                       else [])
                         in (headers @ initial
                               @ [Spawn ''npx'' args (s_project_path swarmSession)
                                    claudeApiKey],
                             Some \<lparr>r_sessionId = sessionId, r_streaming = streaming,
                                   r_startTime = now, r_stdout = [], r_stderr = []\<rparr>)))))"

text \<open>The \<^verbatim>\<open>data\<close> callbacks of the two output streams.\<close>

definition on_stdout :: "running \<Rightarrow> string \<Rightarrow> running \<times> effect list" where
  "on_stdout st chunk =
     (st\<lparr>r_stdout := r_stdout st @ chunk\<rparr>,
      sendEvent (r_streaming st) (plain_event ''output'' chunk (r_sessionId st)))"

definition on_stderr :: "running \<Rightarrow> string \<Rightarrow> running \<times> effect list" where
  "on_stderr st chunk =
     (st\<lparr>r_stderr := r_stderr st @ chunk\<rparr>,
      sendEvent (r_streaming st) (plain_event ''error'' chunk (r_sessionId st)))"

text \<open>
  The \<^verbatim>\<open>close\<close> callback. The exit code is \<^verbatim>\<open>null\<close> (\<open>None\<close>) when a signal
  ended the process; \<^verbatim>\<open>code === 0\<close> is then false.
\<close>

definition on_close ::
  "timestamp \<Rightarrow> running \<Rightarrow> swarm_session list \<Rightarrow> int option
     \<Rightarrow> effect list \<times> swarm_session list" where
  "on_close now st tbl code =
     (let duration = int now - int (r_startTime st);
          sessionId = r_sessionId st;
          final = (if r_streaming st then [EndResponse]
                   else [Respond 200 (ExecBody (code = Some 0) sessionId duration
                                        (r_stdout st) (r_stderr st))])
      in
      if code = Some 0
      then (sendEvent (r_streaming st)
              \<lparr>ev_type = ''completed'', ev_message = ''Swarm completed successfully'',
               ev_sessionId = sessionId, ev_duration = Some duration,
               ev_output = Some (r_stdout st), ev_error = None\<rparr>
              @ final,
            snd (updateSwarmStatus now tbl sessionId ''completed'' None))
      else (sendEvent (r_streaming st)
              \<lparr>ev_type = ''failed'', ev_message = ''Swarm execution failed'',
               ev_sessionId = sessionId, ev_duration = Some duration,
               ev_output = None, ev_error = Some (r_stderr st)\<rparr>
              @ final,
            snd (updateSwarmStatus now tbl sessionId ''failed'' (Some (r_stderr st)))))"

text \<open>The \<^verbatim>\<open>error\<close> callback (the process could not be spawned).\<close>

definition on_error ::
  "timestamp \<Rightarrow> running \<Rightarrow> swarm_session list \<Rightarrow> string
     \<Rightarrow> effect list \<times> swarm_session list" where
  "on_error now st tbl message =
     (sendEvent (r_streaming st) (plain_event ''error'' message (r_sessionId st))
        @ (if r_streaming st then [EndResponse]
           else [Respond 500 (ErrorBody ''Failed to execute swarm'' (Some message))]),
      snd (updateSwarmStatus now tbl (r_sessionId st) ''failed'' (Some message)))"

text \<open>
  What the child process does, as the event loop sees it, each event with the clock
  reading at which its callback runs; and the callbacks run over such a sequence.
\<close>

datatype proc_event =
    StdoutData string
  | StderrData string
  | Close "int option"
  | ProcError string

fun run_process ::
  "running \<Rightarrow> swarm_session list \<Rightarrow> (timestamp \<times> proc_event) list
     \<Rightarrow> running \<times> swarm_session list \<times> effect list" where
  "run_process st tbl [] = (st, tbl, [])"
| "run_process st tbl ((now, ev) # evs) =
     (case ev of
        StdoutData chunk \<Rightarrow>
          (let (st', out) = on_stdout st chunk;
               (st'', tbl', rest) = run_process st' tbl evs
           in (st'', tbl', out @ rest))
      | StderrData chunk \<Rightarrow>
          (let (st', out) = on_stderr st chunk;
               (st'', tbl', rest) = run_process st' tbl evs
           in (st'', tbl', out @ rest))
      | Close code \<Rightarrow>
          (let (out, tbl1) = on_close now st tbl code;
               (st'', tbl', rest) = run_process st tbl1 evs
           in (st'', tbl', out @ rest))
      | ProcError message \<Rightarrow>
          (let (out, tbl1) = on_error now st tbl message;
               (st'', tbl', rest) = run_process st tbl1 evs
           in (st'', tbl', out @ rest)))"

text \<open>The standard-error text of a sequence of events, in order.\<close>

fun stderr_text :: "(timestamp \<times> proc_event) list \<Rightarrow> string" where
  "stderr_text [] = []"
| "stderr_text ((now, StderrData chunk) # evs) = chunk @ stderr_text evs"
| "stderr_text (_ # evs) = stderr_text evs"

text \<open>
  The invariant of the session table: a row has a completion time exactly when its
  status is terminal.
\<close>

definition session_invariant :: "swarm_session list \<Rightarrow> bool" where
  "session_invariant tbl =
     list_all (\<lambda>row. (s_completed_at row \<noteq> None) = terminal (s_status row)) tbl"

text \<open>A session that has completed at time 1, for the concrete evaluations below.\<close>

definition done_session :: swarm_session where
  "done_session =
     \<lparr>s_id = 1, s_session_id = ''swarm-a'', s_user_id = 1, s_project_name = ''acme'',
      s_project_path = ''/srv/acme'', s_swarm_type = ''quick'', s_queen_agent = None,
      s_task_description = ''fix bug'', s_status = ''completed'',
      s_namespace = Some ''acme-0'', s_created_at = 0, s_completed_at = Some 1,
      s_error_message = None, s_metadata = []\<rparr>"

text \<open>A worker that has not started.\<close>

definition pending_worker :: swarm_worker where
  "pending_worker =
     \<lparr>w_id = 1, w_swarm_session_id = 1, w_worker_id = ''w-1'', w_agent_type = ''debugger'',
      w_agent_name = ''Debugger'', w_task = ''find it'', w_status = ''pending'',
      w_started_at = None, w_completed_at = None, w_input_tokens = 0,
      w_output_tokens = 0, w_total_tokens = 0, w_result = None, w_error_message = None,
      w_metadata = ''{}''\<rparr>"

text \<open>A session that has failed.\<close>

definition failed_session :: swarm_session where
  "failed_session =
     done_session\<lparr>s_status := ''failed'', s_error_message := Some ''exit 1''\<rparr>"

text \<open>A create request with an empty project path.\<close>

definition no_path_request :: create_request where
  "no_path_request =
     \<lparr>c_projectName = Some ''acme'', c_projectPath = Some [],
      c_taskDescription = Some ''fix bug'', c_swarmType = None, c_agentTypes = None,
      c_user = Some 1\<rparr>"


text \<open>
  Two uses of one agent type by one owner, a success and then a failure, and the row
  the first of them inserts.
\<close>

definition first_use :: metric_update where
  "first_use = \<lparr>u_now = 10, u_userId = 1, u_agentType = ''debugger'', u_inputTokens = 100,
                u_outputTokens = 20, u_completionTimeMs = 300, u_success = True\<rparr>"


definition first_row :: agent_metric where
  "first_row =
     \<lparr>m_id = 1, m_user_id = 1, m_agent_type = ''debugger'', m_usage_count = 1,
      m_total_input_tokens = 100, m_total_output_tokens = 20, m_total_tokens = 120,
      m_avg_completion_time_ms = 300, m_success_rate = 1, m_last_used = Some 10,
      m_updated_at = 10\<rparr>"

text \<open>Whether an effect is the spawn of a child process.\<close>

fun is_spawn :: "effect \<Rightarrow> bool" where
  "is_spawn (Spawn command args cwd key) = True"
| "is_spawn _ = False"

text \<open>Whether an event of the child process is a chunk of output.\<close>

fun is_data :: "proc_event \<Rightarrow> bool" where
  "is_data (StdoutData chunk) = True"
| "is_data (StderrData chunk) = True"
| "is_data _ = False"

text \<open>
  A running session, an inactive and an active credential of its owner, and requests to
  execute the session with and without streaming.
\<close>

definition active_session :: swarm_session where
  "active_session = done_session\<lparr>s_status := ''active'', s_completed_at := None\<rparr>"

definition inactive_key :: user_credential where
  "inactive_key =
     \<lparr>k_id = 1, k_user_id = 1, k_credential_name = ''main'',
      k_credential_type = ''claude_api_key'', k_credential_value = ''sk-1'',
      k_description = None, k_created_at = 0, k_is_active = False\<rparr>"

definition active_key :: user_credential where
  "active_key = inactive_key\<lparr>k_is_active := True\<rparr>"

definition stream_request :: exec_request where
  "stream_request =
     \<lparr>x_sessionId = Some ''swarm-a'', x_taskDescription = Some ''fix bug'',
      x_swarmType = None, x_streaming = None, x_user = Some 1\<rparr>"

definition plain_request :: exec_request where
  "plain_request = stream_request\<lparr>x_streaming := Some False\<rparr>"

text \<open>The callbacks' state once \<open>plain_request\<close> has spawned its process at time 5.\<close>

definition plain_running :: running where
  "plain_running =
     \<lparr>r_sessionId = ''swarm-a'', r_streaming = False, r_startTime = 5, r_stdout = [],
      r_stderr = []\<rparr>"

text \<open>A process that writes to both streams.\<close>

definition noisy_output :: "(timestamp \<times> proc_event) list" where
  "noisy_output = [(6, StdoutData ''hi''), (7, StderrData ''oops''), (8, StderrData ''!'')]"

section \<open>Helper lemmas: the update, row by row\<close>

lemma updateSwarmStatus_length:
  "length (snd (updateSwarmStatus now tbl sid st err)) = length tbl"
  by (simp add: updateSwarmStatus_def)

lemma updateSwarmStatus_hit:
  "i < length tbl \<Longrightarrow> s_session_id (tbl ! i) = sid \<Longrightarrow>
   snd (updateSwarmStatus now tbl sid st err) ! i =
     (tbl ! i)\<lparr>s_status := st, s_error_message := err,
               s_completed_at := (if terminal st then Some now else None)\<rparr>"
  by (simp add: updateSwarmStatus_def terminal_def)

lemma updateSwarmStatus_miss:
  "i < length tbl \<Longrightarrow> s_session_id (tbl ! i) \<noteq> sid \<Longrightarrow>
   snd (updateSwarmStatus now tbl sid st err) ! i = tbl ! i"
  by (simp add: updateSwarmStatus_def)

lemma updateSwarmStatus_id:
  "i < length tbl \<Longrightarrow>
   s_session_id (snd (updateSwarmStatus now tbl sid st err) ! i) = s_session_id (tbl ! i)"
  by (simp add: updateSwarmStatus_def)

lemma updateSwarmStatus_changes:
  "fst (updateSwarmStatus now tbl sid st err) = (\<exists>row \<in> set tbl. s_session_id row = sid)"
  by (auto simp: updateSwarmStatus_def filter_empty_conv)

lemma getSwarmSession_None:
  "getSwarmSession tbl sid = None \<longleftrightarrow> (\<forall>row \<in> set tbl. s_session_id row \<noteq> sid)"
  by (auto simp: getSwarmSession_def find_None_iff)

lemma swarm_abort_hit:
  "i < length tbl \<Longrightarrow> s_session_id (tbl ! i) = sid \<Longrightarrow>
   swarm_abort now tbl sid =
     ((200, AbortBody sid ''aborted''), snd (updateSwarmStatus now tbl sid ''aborted'' None))"
  by (auto simp: swarm_abort_def getSwarmSession_def find_None_iff split: option.splits
        dest: nth_mem)

lemma updateSwarmStatus_invariant:
  "session_invariant tbl \<Longrightarrow> session_invariant (snd (updateSwarmStatus now tbl sid st err))"
  by (auto simp: session_invariant_def updateSwarmStatus_def terminal_def list_all_iff)

lemma swarm_abort_invariant:
  "session_invariant tbl \<Longrightarrow> session_invariant (snd (swarm_abort now tbl sid))"
  by (auto simp: swarm_abort_def updateSwarmStatus_invariant split: option.splits)

lemma createSwarmSession_invariant:
  "session_invariant tbl \<Longrightarrow>
   createSwarmSession now tbl u sid pn pp ty td md = Inr (res, tbl') \<Longrightarrow>
   session_invariant tbl'"
proof -
  assume inv: "session_invariant tbl"
    and eq: "createSwarmSession now tbl u sid pn pp ty td md = Inr (res, tbl')"
  have "\<exists>row. tbl' = tbl @ [row] \<and> s_status row = ''active'' \<and> s_completed_at row = None"
    using eq unfolding createSwarmSession_def Let_def
    by (cases "list_ex (\<lambda>row. s_session_id row = sid) tbl") auto
  then obtain row where "tbl' = tbl @ [row]" "s_status row = ''active''" "s_completed_at row = None"
    by blast
  then show ?thesis
    using inv by (simp add: session_invariant_def terminal_def)
qed

lemma updateSwarmStatus_absent:
  "list_all (\<lambda>row. s_session_id row \<noteq> sid) tbl \<Longrightarrow>
   updateSwarmStatus now tbl sid st err = (False, tbl)"
  by (simp add: updateSwarmStatus_def list_all_iff filter_empty_conv map_idI)

lemma updateWorkerStatus_hit:
  "i < length tbl \<Longrightarrow> w_worker_id (tbl ! i) = wid \<Longrightarrow>
   snd (updateWorkerStatus now tbl wid st res err) ! i =
     (tbl ! i)\<lparr>w_status := st, w_result := res, w_error_message := err,
               w_started_at := (case w_started_at (tbl ! i) of
                                  Some t \<Rightarrow> Some t
                                | None \<Rightarrow> if st = ''active'' then Some now else None),
               w_completed_at := (if st = ''completed'' \<or> st = ''failed''
                                  then Some now else None)\<rparr>"
  by (simp add: updateWorkerStatus_def)

lemma updateWorkerStatus_id:
  "i < length tbl \<Longrightarrow>
   w_worker_id (snd (updateWorkerStatus now tbl wid st res err) ! i) = w_worker_id (tbl ! i)"
  by (simp add: updateWorkerStatus_def)

lemma updateWorkerStatus_length:
  "length (snd (updateWorkerStatus now tbl wid st res err)) = length tbl"
  by (simp add: updateWorkerStatus_def)

lemma updateWorkerTokens_hit:
  "i < length tbl \<Longrightarrow> w_worker_id (tbl ! i) = wid \<Longrightarrow>
   snd (updateWorkerTokens fl tbl wid inTok outTok) ! i =
     (tbl ! i)\<lparr>w_input_tokens := inTok, w_output_tokens := outTok,
               w_total_tokens := fl (inTok + outTok)\<rparr>"
  by (simp add: updateWorkerTokens_def)

lemma updateWorkerTokens_beyond_exact_range:
  "fl (2 ^ 53 + 1) = 2 ^ 53 \<Longrightarrow>
   w_total_tokens (snd (updateWorkerTokens fl [pending_worker] ''w-1'' (2 ^ 53) 1) ! 0)
     = 2 ^ 53"
  by (simp add: updateWorkerTokens_def pending_worker_def)






lemma first_table: "updates (\<lambda>x. x) [] [first_use] = [first_row]"
  by (simp add: updateAgentMetrics_def first_use_def first_row_def)


lemma latest_None: "latest rows = None \<longleftrightarrow> rows = []"
  by (induction rows) (auto split: option.splits)

lemma getActiveCredential_no_active_row:
  "list_all (\<lambda>row. \<not> (k_user_id row = u \<and> k_credential_type row = ty \<and> k_is_active row)) creds
   \<Longrightarrow> getActiveCredential creds u ty = None"
proof -
  assume "list_all (\<lambda>row. \<not> (k_user_id row = u \<and> k_credential_type row = ty \<and> k_is_active row)) creds"
  then have "filter (\<lambda>row. k_user_id row = u \<and> k_credential_type row = ty \<and> k_is_active row) creds = []"
    by (auto simp: list_all_iff filter_empty_conv)
  then show ?thesis
    by (simp add: getActiveCredential_def)
qed

lemma sendEvent_no_spawn: "\<not> list_ex is_spawn (sendEvent streaming ev)"
  by (simp add: sendEvent_def)

lemma swarm_execute_without_credential:
  assumes "getActiveCredential creds (request_user (x_user req)) ''claude_api_key'' = None"
  shows "snd (swarm_execute now creds tbl req) = None
       \<and> \<not> list_ex is_spawn (fst (swarm_execute now creds tbl req))"
  using assms
  by (simp add: swarm_execute_def Let_def sendEvent_def split: option.splits)

lemma swarm_execute_configuration_error:
  assumes "getActiveCredential creds (request_user (x_user req)) ''claude_api_key'' = None"
    and "\<not> falsy (x_sessionId req)" and "\<not> falsy (x_taskDescription req)"
    and "getSwarmSession tbl (field_text (x_sessionId req)) = Some session"
  shows "fst (swarm_execute now creds tbl req) =
           (if x_streaming req = Some False
            then [Respond 400 (ErrorBody no_credential_message None)]
            else [SetHeader ''Content-Type'' ''text/event-stream'',
                  SetHeader ''Cache-Control'' ''no-cache'',
                  SetHeader ''Connection'' ''keep-alive'',
                  Write (plain_event ''status'' ''Initializing swarm...''
                           (field_text (x_sessionId req))),
                  Write (plain_event ''error'' no_credential_message
                           (field_text (x_sessionId req))),
                  EndResponse])"
  using assms
  by (cases "x_streaming req") (auto simp: swarm_execute_def Let_def sendEvent_def)

lemma swarm_execute_running:
  assumes "snd (swarm_execute now creds tbl req) = Some st"
  shows "r_stderr st = [] \<and> r_stdout st = [] \<and> r_startTime st = now
       \<and> r_sessionId st = field_text (x_sessionId req)"
  using assms
  by (auto simp: swarm_execute_def Let_def split: if_splits option.splits)

lemma on_close_table:
  "snd (on_close now st tbl code) =
     snd (updateSwarmStatus now tbl (r_sessionId st)
            (if code = Some 0 then ''completed'' else ''failed'')
            (if code = Some 0 then None else Some (r_stderr st)))"
  by (simp add: on_close_def Let_def)

lemma run_process_until_close:
  "list_all (\<lambda>e. is_data (snd e)) evs \<Longrightarrow>
   fst (snd (run_process st tbl (evs @ [(now, Close code)]))) =
     snd (updateSwarmStatus now tbl (r_sessionId st)
            (if code = Some 0 then ''completed'' else ''failed'')
            (if code = Some 0 then None else Some (r_stderr st @ stderr_text evs)))"
proof (induction evs arbitrary: st)
  case Nil
  show ?case
    by (simp add: case_prod_beta on_close_table)
next
  case (Cons e evs)
  obtain t ev where e: "e = (t, ev)" by (cases e)
  from Cons.prems e have data: "is_data ev" and rest: "list_all (\<lambda>e. is_data (snd e)) evs"
    by simp_all
  show ?case
  proof (cases ev)
    case (StdoutData chunk)
    then show ?thesis
      using Cons.IH [OF rest, of "st\<lparr>r_stdout := r_stdout st @ chunk\<rparr>"] e
      by (simp add: case_prod_beta on_stdout_def)
  next
    case (StderrData chunk)
    then show ?thesis
      using Cons.IH [OF rest, of "st\<lparr>r_stderr := r_stderr st @ chunk\<rparr>"] e
      by (simp add: case_prod_beta on_stderr_def)
  next
    case (Close c)
    then show ?thesis using data by simp
  next
    case (ProcError m)
    then show ?thesis using data by simp
  qed
qed

lemma execute_with_credential_spawns:
  "swarm_execute 5 [active_key] [active_session] plain_request =
     ([Spawn ''npx'' [''claude-flow@alpha'', ''swarm'', ''fix bug'', ''--claude''] ''/srv/acme''
         ''sk-1''],
      Some plain_running)"
  by (simp add: swarm_execute_def Let_def sendEvent_def getActiveCredential_def
        getSwarmSession_def active_key_def inactive_key_def active_session_def
        done_session_def plain_request_def stream_request_def plain_running_def falsy_def
        field_text_def request_user_def)

section \<open>Session status transitions\<close>

text \<open>
  C1, as the specification states it: once a session's status is terminal, no later
  \<^verbatim>\<open>setStatus\<close> or abort changes it. The store has no such guard. A session that
  completed at time 1 and is aborted at time 2 ends with the status \<^verbatim>\<open>aborted\<close>.
\<close>

theorem abort_changes_terminal_status:
  "s_status done_session = ''completed'' \<and> terminal (s_status done_session)
   \<and> s_status (snd (swarm_abort 2 [done_session] ''swarm-a'') ! 0) = ''aborted''"
  by (simp add: done_session_def terminal_def swarm_abort_def getSwarmSession_def
        updateSwarmStatus_def)

text \<open>
  C1, amended: \<^verbatim>\<open>setStatus\<close> on an existing session always stores the new status
  and abort always stores \<^verbatim>\<open>aborted\<close>, whatever the status was; and both keep the
  invariant that a row's \<^verbatim>\<open>completed_at\<close> is non-null exactly when its status is
  terminal.
\<close>

theorem status_overwritten_completed_at_tracks_terminal:
  assumes "session_invariant tbl" and "i < length tbl" and "s_session_id (tbl ! i) = sid"
  shows "s_status (snd (updateSwarmStatus now tbl sid st err) ! i) = st
       \<and> s_status (snd (swarm_abort now tbl sid) ! i) = ''aborted''
       \<and> session_invariant (snd (updateSwarmStatus now tbl sid st err))
       \<and> session_invariant (snd (swarm_abort now tbl sid))"
  using assms
  by (simp add: updateSwarmStatus_hit swarm_abort_hit updateSwarmStatus_invariant
        swarm_abort_invariant)

theorem status_overwritten_witness:
  "session_invariant [done_session]
   \<and> s_status (snd (updateSwarmStatus 5 [done_session] ''swarm-a'' ''failed'' (Some ''boom'')) ! 0)
       = ''failed''
   \<and> s_status (snd (swarm_abort 5 [done_session] ''swarm-a'') ! 0) = ''aborted''"
proof -
  have inv: "session_invariant [done_session]"
    by (simp add: session_invariant_def done_session_def terminal_def)
  have len: "0 < length [done_session]" by simp
  have sid: "s_session_id ([done_session] ! 0) = ''swarm-a''"
    by (simp add: done_session_def)
  from status_overwritten_completed_at_tracks_terminal
         [OF inv len sid, of 5 "''failed''" "Some ''boom''"]
  have "s_status (snd (updateSwarmStatus 5 [done_session] ''swarm-a'' ''failed'' (Some ''boom'')) ! 0)
          = ''failed''
        \<and> s_status (snd (swarm_abort 5 [done_session] ''swarm-a'') ! 0) = ''aborted''"
    by blast
  with inv show ?thesis by blast
qed

section \<open>Repeated session status updates\<close>

text \<open>
  C2, as the specification states it: a second \<^verbatim>\<open>setStatus\<close> with the same
  terminal status leaves \<^verbatim>\<open>completed_at\<close> as the first call wrote it. The update
  writes the column on every call: after \<^verbatim>\<open>failed\<close> at time 1 and again at time
  2 the completion time is 2.
\<close>

theorem second_setStatus_moves_completed_at:
  "s_completed_at (snd (updateSwarmStatus 1 [done_session] ''swarm-a'' ''failed'' None) ! 0)
     = Some 1
   \<and> s_completed_at
        (snd (updateSwarmStatus 2
               (snd (updateSwarmStatus 1 [done_session] ''swarm-a'' ''failed'' None))
               ''swarm-a'' ''failed'' None) ! 0)
     = Some 2"
  by (simp add: done_session_def updateSwarmStatus_def)

text \<open>
  C2, amended: of two successive \<^verbatim>\<open>setStatus\<close> calls with the same terminal status
  on an existing session, each sets \<^verbatim>\<open>completed_at\<close> to the time of its own call;
  the second call's time is what remains (last write wins).
\<close>

theorem setStatus_twice_last_write_wins:
  assumes "terminal st" and "i < length tbl" and "s_session_id (tbl ! i) = sid"
  shows "s_completed_at (snd (updateSwarmStatus now1 tbl sid st err1) ! i) = Some now1
       \<and> s_completed_at
            (snd (updateSwarmStatus now2 (snd (updateSwarmStatus now1 tbl sid st err1))
                    sid st err2) ! i)
          = Some now2"
proof -
  let ?tbl1 = "snd (updateSwarmStatus now1 tbl sid st err1)"
  have len: "i < length ?tbl1"
    using assms(2) by (simp add: updateSwarmStatus_length)
  have sid: "s_session_id (?tbl1 ! i) = sid"
    using assms(2,3) by (simp add: updateSwarmStatus_id)
  have first: "s_completed_at (?tbl1 ! i) = Some now1"
    using assms by (simp add: updateSwarmStatus_hit)
  have second: "s_completed_at (snd (updateSwarmStatus now2 ?tbl1 sid st err2) ! i) = Some now2"
    using assms(1) by (simp add: updateSwarmStatus_hit [OF len sid])
  from first second show ?thesis by blast
qed

theorem setStatus_twice_witness:
  "terminal ''completed''
   \<and> s_completed_at
        (snd (updateSwarmStatus 8
               (snd (updateSwarmStatus 7 [done_session] ''swarm-a'' ''completed'' None))
               ''swarm-a'' ''completed'' None) ! 0)
     = Some 8"
proof -
  have t: "terminal ''completed''" by (simp add: terminal_def)
  have len: "0 < length [done_session]" by simp
  have sid: "s_session_id ([done_session] ! 0) = ''swarm-a''"
    by (simp add: done_session_def)
  from setStatus_twice_last_write_wins [OF t len sid, of 7 None 8 None] t
  show ?thesis by blast
qed

section \<open>What a session status update writes and reports\<close>

text \<open>
  C3, as the specification states it: a non-terminal new status leaves every timestamp
  of the row alone. The update writes \<^verbatim>\<open>NULL\<close> to \<^verbatim>\<open>completed_at\<close> then: a
  session completed at time 1 and set to \<^verbatim>\<open>active\<close> has no completion time left.
\<close>

theorem nonterminal_setStatus_clears_completed_at:
  "s_completed_at ([done_session] ! 0) = Some 1
   \<and> s_completed_at (snd (updateSwarmStatus 2 [done_session] ''swarm-a'' ''active'' None) ! 0)
       = None"
  by (simp add: done_session_def updateSwarmStatus_def)

text \<open>
  C3, amended: \<^verbatim>\<open>setStatus\<close> on an existing row sets \<^verbatim>\<open>completed_at\<close> to the
  current time if the new status is terminal and to null if it is not; \<^verbatim>\<open>created_at\<close>
  is left alone; the call reports true. When no row has the id the call reports false
  (zero rows affected) and the table is unchanged.
\<close>

theorem setStatus_completed_at_and_changes:
  assumes "i < length tbl" and "s_session_id (tbl ! i) = sid"
    and "list_all (\<lambda>row. s_session_id row \<noteq> sid) other"
  shows "s_completed_at (snd (updateSwarmStatus now tbl sid st err) ! i)
           = (if terminal st then Some now else None)
       \<and> s_created_at (snd (updateSwarmStatus now tbl sid st err) ! i) = s_created_at (tbl ! i)
       \<and> fst (updateSwarmStatus now tbl sid st err)
       \<and> updateSwarmStatus now other sid st err = (False, other)"
proof -
  have "\<exists>row \<in> set tbl. s_session_id row = sid"
    using assms(1,2) nth_mem by blast
  then have "fst (updateSwarmStatus now tbl sid st err)"
    by (simp add: updateSwarmStatus_changes)
  then show ?thesis
    using assms by (simp add: updateSwarmStatus_hit updateSwarmStatus_absent)
qed

theorem setStatus_completed_at_witness:
  "s_completed_at (snd (updateSwarmStatus 9 [done_session] ''swarm-a'' ''aborted'' None) ! 0)
     = Some 9
   \<and> s_completed_at (snd (updateSwarmStatus 9 [done_session] ''swarm-a'' ''active'' None) ! 0)
     = None
   \<and> updateSwarmStatus 9 [done_session] ''swarm-b'' ''failed'' None = (False, [done_session])"
proof -
  have len: "0 < length [done_session]" by simp
  have sid: "s_session_id ([done_session] ! 0) = ''swarm-a''"
    by (simp add: done_session_def)
  have other: "list_all (\<lambda>row. s_session_id row \<noteq> ''swarm-b'') [done_session]"
    by (simp add: done_session_def)
  have none: "list_all (\<lambda>row. s_session_id row \<noteq> ''swarm-a'') []" by simp
  have t: "terminal ''aborted''" "\<not> terminal ''active''" by (simp_all add: terminal_def)
  from setStatus_completed_at_and_changes [OF len sid none, of 9 "''aborted''" None] t
  have a: "s_completed_at (snd (updateSwarmStatus 9 [done_session] ''swarm-a'' ''aborted'' None) ! 0)
             = Some 9"
    by simp
  from setStatus_completed_at_and_changes [OF len sid none, of 9 "''active''" None] t
  have b: "s_completed_at (snd (updateSwarmStatus 9 [done_session] ''swarm-a'' ''active'' None) ! 0)
             = None"
    by simp
  have len': "0 < length [done_session\<lparr>s_session_id := ''swarm-b''\<rparr>]" by simp
  have sid': "s_session_id ([done_session\<lparr>s_session_id := ''swarm-b''\<rparr>] ! 0) = ''swarm-b''"
    by simp
  from setStatus_completed_at_and_changes [OF len' sid' other, of 9 "''failed''" None]
  have c: "updateSwarmStatus 9 [done_session] ''swarm-b'' ''failed'' None = (False, [done_session])"
    by blast
  from a b c show ?thesis by blast
qed

section \<open>The abort endpoint\<close>

text \<open>
  C10: for every existing session, whatever its status, the abort endpoint answers
  success with the status \<^verbatim>\<open>aborted\<close> and overwrites the row's status with
  \<^verbatim>\<open>aborted\<close>, its error message with null and its \<^verbatim>\<open>completed_at\<close> with the
  current time.
\<close>

theorem abort_overwrites_unconditionally:
  assumes "i < length tbl" and "s_session_id (tbl ! i) = sid"
  shows "fst (swarm_abort now tbl sid) = (200, AbortBody sid ''aborted'')
       \<and> s_status (snd (swarm_abort now tbl sid) ! i) = ''aborted''
       \<and> s_error_message (snd (swarm_abort now tbl sid) ! i) = None
       \<and> s_completed_at (snd (swarm_abort now tbl sid) ! i) = Some now"
  using assms by (simp add: swarm_abort_hit updateSwarmStatus_hit terminal_def)

theorem abort_overwrites_witness:
  "terminal (s_status (failed_session))
   \<and> fst (swarm_abort 6 [failed_session] ''swarm-a'') = (200, AbortBody ''swarm-a'' ''aborted'')
   \<and> s_status (snd (swarm_abort 6 [failed_session] ''swarm-a'') ! 0) = ''aborted''
   \<and> s_error_message (snd (swarm_abort 6 [failed_session] ''swarm-a'') ! 0) = None
   \<and> s_completed_at (snd (swarm_abort 6 [failed_session] ''swarm-a'') ! 0) = Some 6"
proof -
  have len: "0 < length [failed_session]" by simp
  have sid: "s_session_id ([failed_session] ! 0) = ''swarm-a''"
    by (simp add: failed_session_def done_session_def)
  have t: "terminal (s_status (failed_session))"
    by (simp add: failed_session_def terminal_def)
  from abort_overwrites_unconditionally [OF len sid, of 6] t
  show ?thesis by blast
qed

section \<open>Validation on session creation\<close>

text \<open>
  C9: a create request whose \<^verbatim>\<open>projectName\<close>, \<^verbatim>\<open>projectPath\<close> or
  \<^verbatim>\<open>taskDescription\<close> is empty (or absent) is answered with the 400 validation
  error, and the session table is left as it was.
\<close>

theorem create_rejects_empty_fields:
  assumes "falsy (c_projectName req) \<or> falsy (c_projectPath req)
             \<or> falsy (c_taskDescription req)"
  shows "swarm_create now uuid tbl req =
           ((400, ErrorBody ''Missing required fields''
                    (Some ''projectName, projectPath, and taskDescription are required'')),
            tbl)"
  using assms unfolding swarm_create_def Let_def by auto

theorem create_rejects_empty_path_witness:
  "falsy (c_projectPath no_path_request)
   \<and> swarm_create 1000 ''u-1'' [done_session] no_path_request =
       ((400, ErrorBody ''Missing required fields''
                (Some ''projectName, projectPath, and taskDescription are required'')),
        [done_session])"
proof -
  have f: "falsy (c_projectPath no_path_request)"
    by (simp add: falsy_def no_path_request_def)
  then have "falsy (c_projectName no_path_request) \<or> falsy (c_projectPath no_path_request)
               \<or> falsy (c_taskDescription no_path_request)"
    by blast
  from create_rejects_empty_fields [OF this, of 1000 "''u-1''" "[done_session]"] f
  show ?thesis by blast
qed

section \<open>Worker status updates\<close>

text \<open>
  C4: a worker status update sets \<^verbatim>\<open>started_at\<close> to the current time only when
  the new status is \<^verbatim>\<open>active\<close> and the row has none yet; it never overwrites a
  \<^verbatim>\<open>started_at\<close> that is there, so a second update to \<^verbatim>\<open>active\<close> keeps the
  first one's; and \<^verbatim>\<open>completed_at\<close> is the current time exactly when the new status
  is \<^verbatim>\<open>completed\<close> or \<^verbatim>\<open>failed\<close> (null otherwise).
\<close>

theorem worker_started_once_completed_on_terminal:
  assumes "i < length tbl" and "w_worker_id (tbl ! i) = wid"
  shows "(w_started_at (tbl ! i) = None \<and> st = ''active'' \<longrightarrow>
            w_started_at (snd (updateWorkerStatus now tbl wid st res err) ! i) = Some now)
       \<and> (w_started_at (tbl ! i) = None \<and> st \<noteq> ''active'' \<longrightarrow>
            w_started_at (snd (updateWorkerStatus now tbl wid st res err) ! i) = None)
       \<and> (w_started_at (tbl ! i) \<noteq> None \<longrightarrow>
            w_started_at (snd (updateWorkerStatus now tbl wid st res err) ! i)
              = w_started_at (tbl ! i))
       \<and> w_started_at
            (snd (updateWorkerStatus now2
                    (snd (updateWorkerStatus now tbl wid ''active'' res err))
                    wid ''active'' res2 err2) ! i)
          = w_started_at (snd (updateWorkerStatus now tbl wid ''active'' res err) ! i)
       \<and> w_completed_at (snd (updateWorkerStatus now tbl wid st res err) ! i)
          = (if st = ''completed'' \<or> st = ''failed'' then Some now else None)"
proof -
  let ?tbl1 = "snd (updateWorkerStatus now tbl wid ''active'' res err)"
  have len: "i < length ?tbl1"
    using assms(1) by (simp add: updateWorkerStatus_length)
  have wid: "w_worker_id (?tbl1 ! i) = wid"
    using assms by (simp add: updateWorkerStatus_id)
  have started: "w_started_at (?tbl1 ! i) \<noteq> None"
    using assms by (simp add: updateWorkerStatus_hit split: option.splits)
  have again: "w_started_at (snd (updateWorkerStatus now2 ?tbl1 wid ''active'' res2 err2) ! i)
                 = w_started_at (?tbl1 ! i)"
    using started by (auto simp: updateWorkerStatus_hit [OF len wid] split: option.splits)
  have once: "w_started_at (snd (updateWorkerStatus now tbl wid st res err) ! i)
                = (case w_started_at (tbl ! i) of
                     Some t \<Rightarrow> Some t
                   | None \<Rightarrow> if st = ''active'' then Some now else None)"
    using assms by (simp add: updateWorkerStatus_hit)
  have compl: "w_completed_at (snd (updateWorkerStatus now tbl wid st res err) ! i)
                = (if st = ''completed'' \<or> st = ''failed'' then Some now else None)"
    using assms by (simp add: updateWorkerStatus_hit)
  from once have "w_started_at (tbl ! i) = None \<and> st = ''active'' \<longrightarrow>
            w_started_at (snd (updateWorkerStatus now tbl wid st res err) ! i) = Some now"
    by auto
  moreover from once have "w_started_at (tbl ! i) = None \<and> st \<noteq> ''active'' \<longrightarrow>
            w_started_at (snd (updateWorkerStatus now tbl wid st res err) ! i) = None"
    by auto
  moreover from once have "w_started_at (tbl ! i) \<noteq> None \<longrightarrow>
            w_started_at (snd (updateWorkerStatus now tbl wid st res err) ! i)
              = w_started_at (tbl ! i)"
    by (auto split: option.splits)
  ultimately show ?thesis using again compl by blast
qed

theorem worker_started_once_witness:
  "w_started_at (snd (updateWorkerStatus 3 [pending_worker] ''w-1'' ''active'' None None) ! 0)
     = Some 3
   \<and> w_started_at
        (snd (updateWorkerStatus 4
                (snd (updateWorkerStatus 3 [pending_worker] ''w-1'' ''active'' None None))
                ''w-1'' ''active'' None None) ! 0)
     = Some 3
   \<and> w_completed_at
        (snd (updateWorkerStatus 3 [pending_worker] ''w-1'' ''active'' None None) ! 0)
     = None"
proof -
  have len: "0 < length [pending_worker]" by simp
  have wid: "w_worker_id ([pending_worker] ! 0) = ''w-1''"
    by (simp add: pending_worker_def)
  have fresh: "w_started_at ([pending_worker] ! 0) = None"
    by (simp add: pending_worker_def)
  from worker_started_once_completed_on_terminal
         [OF len wid, of "''active''" 3 None None 4 None None] fresh
  show ?thesis by simp
qed

section \<open>Worker token updates\<close>

text \<open>
  C5: after a token update of a worker whose two counts and their sum are integers of
  magnitude at most \<open>2^53\<close> (the range in which a JavaScript number holds every
  integer exactly), the stored total is the sum of the two counts given, which are the
  stored input and output counts; the total the row held before plays no part.
\<close>

theorem worker_total_is_sum:
  assumes "i < length tbl" and "w_worker_id (tbl ! i) = wid"
    and "\<forall>n. \<bar>n\<bar> \<le> 2 ^ 53 \<longrightarrow> fl n = n"
    and "\<bar>inputTokens\<bar> \<le> 2 ^ 53" and "\<bar>outputTokens\<bar> \<le> 2 ^ 53"
    and "\<bar>inputTokens + outputTokens\<bar> \<le> 2 ^ 53"
  shows "w_total_tokens (snd (updateWorkerTokens fl tbl wid inputTokens outputTokens) ! i)
           = inputTokens + outputTokens
       \<and> w_input_tokens (snd (updateWorkerTokens fl tbl wid inputTokens outputTokens) ! i)
           = inputTokens
       \<and> w_output_tokens (snd (updateWorkerTokens fl tbl wid inputTokens outputTokens) ! i)
           = outputTokens
       \<and> w_total_tokens (snd (updateWorkerTokens fl tbl wid inputTokens outputTokens) ! i)
           = w_input_tokens (snd (updateWorkerTokens fl tbl wid inputTokens outputTokens) ! i)
             + w_output_tokens
                 (snd (updateWorkerTokens fl tbl wid inputTokens outputTokens) ! i)"
proof -
  have exact: "fl (inputTokens + outputTokens) = inputTokens + outputTokens"
    using assms(3,6) by blast
  show ?thesis
    using assms(1,2) exact by (simp add: updateWorkerTokens_hit)
qed

theorem worker_total_is_sum_witness:
  "w_total_tokens
     (snd (updateWorkerTokens (\<lambda>n. n) [pending_worker\<lparr>w_total_tokens := 99\<rparr>] ''w-1'' 120 30)
        ! 0)
     = 150"
proof -
  have len: "0 < length [pending_worker\<lparr>w_total_tokens := 99\<rparr>]" by simp
  have wid: "w_worker_id ([pending_worker\<lparr>w_total_tokens := 99\<rparr>] ! 0) = ''w-1''"
    by (simp add: pending_worker_def)
  have exact: "\<forall>n::int. \<bar>n\<bar> \<le> 2 ^ 53 \<longrightarrow> (\<lambda>n. n) n = n" by simp
  have a: "\<bar>120::int\<bar> \<le> 2 ^ 53" by simp
  have b: "\<bar>30::int\<bar> \<le> 2 ^ 53" by simp
  have c: "\<bar>120 + 30::int\<bar> \<le> 2 ^ 53" by simp
  from worker_total_is_sum [OF len wid exact a b c]
  show ?thesis by simp
qed

section \<open>Running averages of the agent metrics\<close>



section \<open>The credential check of the process runner\<close>

text \<open>
  C7: when the owner of an execute request has no active credential of type
  \<^verbatim>\<open>claude_api_key\<close>, the lookup returns null, the handler spawns no process and
  registers no callbacks, and a request that reaches the process runner (its fields are
  present and its session exists) is answered with the configuration error: as the 400
  JSON answer without streaming, and with streaming as an \<^verbatim>\<open>error\<close> event that is
  the last frame before the response ends.
\<close>

theorem no_credential_no_spawn:
  assumes "list_all (\<lambda>row. \<not> (k_user_id row = request_user (x_user req)
                               \<and> k_credential_type row = ''claude_api_key''
                               \<and> k_is_active row)) creds"
  shows "getActiveCredential creds (request_user (x_user req)) ''claude_api_key'' = None
       \<and> \<not> list_ex is_spawn (fst (swarm_execute now creds tbl req))
       \<and> snd (swarm_execute now creds tbl req) = None
       \<and> (\<not> falsy (x_sessionId req) \<and> \<not> falsy (x_taskDescription req)
            \<and> getSwarmSession tbl (field_text (x_sessionId req)) = Some session \<longrightarrow>
          fst (swarm_execute now creds tbl req) =
            (if x_streaming req = Some False
             then [Respond 400 (ErrorBody no_credential_message None)]
             else [SetHeader ''Content-Type'' ''text/event-stream'',
                   SetHeader ''Cache-Control'' ''no-cache'',
                   SetHeader ''Connection'' ''keep-alive'',
                   Write (plain_event ''status'' ''Initializing swarm...''
                            (field_text (x_sessionId req))),
                   Write (plain_event ''error'' no_credential_message
                            (field_text (x_sessionId req))),
                   EndResponse]))"
proof -
  have none: "getActiveCredential creds (request_user (x_user req)) ''claude_api_key'' = None"
    using assms by (rule getActiveCredential_no_active_row)
  show ?thesis
    using none swarm_execute_without_credential [OF none, of now tbl]
      swarm_execute_configuration_error [OF none, of tbl session now]
    by blast
qed

theorem no_credential_no_spawn_witness:
  "swarm_execute 5 [inactive_key] [active_session] plain_request =
     ([Respond 400 (ErrorBody no_credential_message None)], None)
   \<and> \<not> list_ex is_spawn (fst (swarm_execute 5 [inactive_key] [active_session] plain_request))"
proof -
  have nocred: "list_all (\<lambda>row. \<not> (k_user_id row = request_user (x_user plain_request)
                               \<and> k_credential_type row = ''claude_api_key''
                               \<and> k_is_active row)) [inactive_key]"
    by (simp add: inactive_key_def)
  have valid: "\<not> falsy (x_sessionId plain_request) \<and> \<not> falsy (x_taskDescription plain_request)
       \<and> getSwarmSession [active_session] (field_text (x_sessionId plain_request))
           = Some active_session"
    by (simp add: plain_request_def stream_request_def falsy_def field_text_def
          getSwarmSession_def active_session_def done_session_def)
  have plain: "x_streaming plain_request = Some False"
    by (simp add: plain_request_def)
  from no_credential_no_spawn [OF nocred, of 5 "[active_session]" active_session] valid plain
  show ?thesis by (simp add: prod_eq_iff)
qed

section \<open>Exit code and session status\<close>

text \<open>
  C8: when the process spawned for a session has written its output and exits, the
  \<^verbatim>\<open>close\<close> callback sets the session's status to \<^verbatim>\<open>completed\<close> if the exit
  code is 0, and otherwise to \<^verbatim>\<open>failed\<close> with the concatenation of all
  standard-error chunks as the session's error message.
\<close>

theorem exit_code_sets_status:
  assumes "snd (swarm_execute t0 creds tbl0 req) = Some st"
    and "list_all (\<lambda>e. is_data (snd e)) evs"
    and "i < length tbl" and "s_session_id (tbl ! i) = r_sessionId st"
  shows "(code = Some 0 \<longrightarrow>
            s_status (fst (snd (run_process st tbl (evs @ [(now, Close code)]))) ! i)
              = ''completed'')
       \<and> (code \<noteq> Some 0 \<longrightarrow>
            s_status (fst (snd (run_process st tbl (evs @ [(now, Close code)]))) ! i)
              = ''failed''
            \<and> s_error_message (fst (snd (run_process st tbl (evs @ [(now, Close code)]))) ! i)
              = Some (stderr_text evs))"
proof -
  have empty: "r_stderr st = []"
    using swarm_execute_running [OF assms(1)] by blast
  show ?thesis
    using assms(3,4) empty
    by (simp add: run_process_until_close [OF assms(2)] updateSwarmStatus_hit)
qed

theorem exit_code_sets_status_witness:
  "s_status (fst (snd (run_process plain_running [active_session]
                         (noisy_output @ [(9, Close (Some 0))]))) ! 0)
     = ''completed''
   \<and> s_status (fst (snd (run_process plain_running [active_session]
                           (noisy_output @ [(9, Close (Some 1))]))) ! 0)
     = ''failed''
   \<and> s_error_message (fst (snd (run_process plain_running [active_session]
                                  (noisy_output @ [(9, Close (Some 1))]))) ! 0)
     = Some ''oops!''"
proof -
  have spawned: "snd (swarm_execute 5 [active_key] [active_session] plain_request)
                   = Some plain_running"
    by (simp add: execute_with_credential_spawns)
  have data: "list_all (\<lambda>e. is_data (snd e)) noisy_output"
    by (simp add: noisy_output_def)
  have len: "0 < length [active_session]" by simp
  have sid: "s_session_id ([active_session] ! 0) = r_sessionId plain_running"
    by (simp add: active_session_def done_session_def plain_running_def)
  have errtext: "stderr_text noisy_output = ''oops!''"
    by (simp add: noisy_output_def)
  have codes: "Some (1::int) \<noteq> Some 0" by simp
  from exit_code_sets_status [OF spawned data len sid, of "Some 0" 9]
       exit_code_sets_status [OF spawned data len sid, of "Some 1" 9] errtext codes
  show ?thesis by simp
qed

end
